theory Spec2Isabelle
  imports Complex_Main
begin

section \<open>JavaScript numbers\<close>

text \<open>
  The server computes with JavaScript numbers: IEEE doubles, with \<open>Infinity\<close>,
  \<open>-Infinity\<close> and \<open>NaN\<close>. The model keeps the range of a double and gives up its
  precision: the result of an operation is its exact real value when that lies within
  the range, an infinity when it would round to one, and \<open>0\<close> when it would round to
  zero. So overflow, underflow to zero, \<open>Infinity * 0\<close> and \<open>Math.sqrt\<close> of a negative
  number behave as in the program, while the rounding of the last bit of a result does
  not exist in the model. Where the program's behaviour turns on such a rounding, the
  model does not show it; this is the case for \<open>calculateDistance\<close> at points that are
  almost antipodal (see there). The sign of a zero is not modelled either.
\<close>

datatype jsnum = Fin real | PosInf | NegInf | NaN

text \<open>
  A result of magnitude \<open>2\<^sup>1\<^sup>0\<^sup>2\<^sup>4 - 2\<^sup>9\<^sup>7\<^sup>0\<close> or more (the largest double plus half a unit in
  its last place) rounds to an infinity; one of magnitude \<open>2\<^sup>-\<^sup>1\<^sup>0\<^sup>7\<^sup>5\<close> or less (half the
  smallest positive double) rounds to zero.
\<close>

definition overflow_threshold :: real where
  "overflow_threshold = 2 ^ 1024 - 2 ^ 970"

definition underflow_threshold :: real where
  "underflow_threshold = 1 / 2 ^ 1075"

definition fl :: "real \<Rightarrow> jsnum" where
  "fl x =
     (if overflow_threshold \<le> x then PosInf
      else if x \<le> - overflow_threshold then NegInf
      else if \<bar>x\<bar> \<le> underflow_threshold then Fin 0
      else Fin x)"

text \<open>\<open>x * y\<close>\<close>

fun jmul :: "jsnum \<Rightarrow> jsnum \<Rightarrow> jsnum" where
  "jmul (Fin x) (Fin y) = fl (x * y)"
| "jmul NaN _ = NaN"
| "jmul _ NaN = NaN"
| "jmul PosInf (Fin y) = (if y = 0 then NaN else if 0 < y then PosInf else NegInf)"
| "jmul NegInf (Fin y) = (if y = 0 then NaN else if 0 < y then NegInf else PosInf)"
| "jmul (Fin x) PosInf = (if x = 0 then NaN else if 0 < x then PosInf else NegInf)"
| "jmul (Fin x) NegInf = (if x = 0 then NaN else if 0 < x then NegInf else PosInf)"
| "jmul PosInf PosInf = PosInf"
| "jmul PosInf NegInf = NegInf"
| "jmul NegInf PosInf = NegInf"
| "jmul NegInf NegInf = PosInf"

text \<open>\<open>x + y\<close>\<close>

fun jadd :: "jsnum \<Rightarrow> jsnum \<Rightarrow> jsnum" where
  "jadd (Fin x) (Fin y) = fl (x + y)"
| "jadd NaN _ = NaN"
| "jadd _ NaN = NaN"
| "jadd PosInf NegInf = NaN"
| "jadd NegInf PosInf = NaN"
| "jadd PosInf _ = PosInf"
| "jadd NegInf _ = NegInf"
| "jadd _ PosInf = PosInf"
| "jadd _ NegInf = NegInf"

text \<open>\<open>x - y\<close>\<close>

fun jsub :: "jsnum \<Rightarrow> jsnum \<Rightarrow> jsnum" where
  "jsub (Fin x) (Fin y) = fl (x - y)"
| "jsub NaN _ = NaN"
| "jsub _ NaN = NaN"
| "jsub PosInf PosInf = NaN"
| "jsub NegInf NegInf = NaN"
| "jsub PosInf _ = PosInf"
| "jsub NegInf _ = NegInf"
| "jsub _ PosInf = NegInf"
| "jsub _ NegInf = PosInf"

text \<open>
  \<open>x / y\<close>. A zero divisor is taken to be \<open>+0\<close>; the program divides by \<open>180\<close>, \<open>2\<close>,
  \<open>21\<close> and by a length that was tested to be positive.
\<close>

fun jdiv :: "jsnum \<Rightarrow> jsnum \<Rightarrow> jsnum" where
  "jdiv (Fin x) (Fin y) =
     (if y = 0 then (if x = 0 then NaN else if 0 < x then PosInf else NegInf)
      else fl (x / y))"
| "jdiv NaN _ = NaN"
| "jdiv _ NaN = NaN"
| "jdiv (Fin x) PosInf = Fin 0"
| "jdiv (Fin x) NegInf = Fin 0"
| "jdiv PosInf (Fin y) = (if 0 \<le> y then PosInf else NegInf)"
| "jdiv NegInf (Fin y) = (if 0 \<le> y then NegInf else PosInf)"
| "jdiv _ _ = NaN"

text \<open>\<open>Math.PI\<close>, \<open>Math.sin\<close>, \<open>Math.cos\<close>: the sine and cosine of an infinity are \<open>NaN\<close>.\<close>

definition Math_PI :: jsnum where
  "Math_PI = Fin pi"

fun Math_sin :: "jsnum \<Rightarrow> jsnum" where
  "Math_sin (Fin x) = fl (sin x)"
| "Math_sin _ = NaN"

fun Math_cos :: "jsnum \<Rightarrow> jsnum" where
  "Math_cos (Fin x) = fl (cos x)"
| "Math_cos _ = NaN"

text \<open>\<open>Math.sqrt\<close>: \<open>NaN\<close> below zero (HOL's \<open>sqrt\<close> is odd, so the test is needed).\<close>

fun Math_sqrt :: "jsnum \<Rightarrow> jsnum" where
  "Math_sqrt (Fin x) = (if x < 0 then NaN else fl (sqrt x))"
| "Math_sqrt PosInf = PosInf"
| "Math_sqrt _ = NaN"

text \<open>
  \<open>Math.atan2(y, x)\<close>: the angle of the point \<open>(x, y)\<close>, in \<open>(-\<pi>, \<pi>]\<close>, and \<open>0\<close>
  at the origin; with an infinite argument, the limit of that angle.
\<close>

definition atan2_real :: "real \<Rightarrow> real \<Rightarrow> real" where
  "atan2_real y x =
     (if 0 < x then arctan (y / x)
      else if x < 0 then (if 0 \<le> y then arctan (y / x) + pi else arctan (y / x) - pi)
      else if 0 < y then pi / 2
      else if y < 0 then - (pi / 2)
      else 0)"

fun Math_atan2 :: "jsnum \<Rightarrow> jsnum \<Rightarrow> jsnum" where
  "Math_atan2 (Fin y) (Fin x) = fl (atan2_real y x)"
| "Math_atan2 NaN _ = NaN"
| "Math_atan2 _ NaN = NaN"
| "Math_atan2 (Fin y) PosInf = Fin 0"
| "Math_atan2 (Fin y) NegInf = (if 0 \<le> y then Fin pi else Fin (- pi))"
| "Math_atan2 PosInf (Fin x) = Fin (pi / 2)"
| "Math_atan2 NegInf (Fin x) = Fin (- (pi / 2))"
| "Math_atan2 PosInf PosInf = Fin (pi / 4)"
| "Math_atan2 PosInf NegInf = Fin (3 * pi / 4)"
| "Math_atan2 NegInf PosInf = Fin (- (pi / 4))"
| "Math_atan2 NegInf NegInf = Fin (- (3 * pi / 4))"

text \<open>\<open>Math.ceil\<close>\<close>

fun Math_ceil :: "jsnum \<Rightarrow> jsnum" where
  "Math_ceil (Fin x) = Fin (of_int \<lceil>x\<rceil>)"
| "Math_ceil PosInf = PosInf"
| "Math_ceil NegInf = NegInf"
| "Math_ceil NaN = NaN"

section \<open>calculateDistance\<close>

text \<open>
  \<^verbatim>\<open>
  const calculateDistance = (lat1, lon1, lat2, lon2) => {
    const R = 6371;
    const dLat = (lat2 - lat1) * Math.PI / 180;
    const dLon = (lon2 - lon1) * Math.PI / 180;
    const a =
      Math.sin(dLat/2) * Math.sin(dLat/2) +
      Math.cos(lat1 * Math.PI / 180) * Math.cos(lat2 * Math.PI / 180) *
      Math.sin(dLon/2) * Math.sin(dLon/2);
    const c = 2 * Math.atan2(Math.sqrt(a), Math.sqrt(1-a));
    const distance = R * c;
    return distance;
  };
  \<close>
  In exact arithmetic \<open>a\<close> never exceeds \<open>1\<close>. In doubles it does, by one unit in the
  last place, for some pairs of points that are antipodal or nearly so, for instance
  \<open>(8, 0)\<close> and \<open>(-8, 180)\<close>: there \<open>Math.sqrt(1 - a)\<close> is \<open>NaN\<close> and so is the
  distance. The model has no rounding of the last bit and does not show this.
\<close>

definition calculateDistance :: "jsnum \<Rightarrow> jsnum \<Rightarrow> jsnum \<Rightarrow> jsnum \<Rightarrow> jsnum" where
  "calculateDistance lat1 lon1 lat2 lon2 =
     (let R = Fin 6371;
          dLat = jdiv (jmul (jsub lat2 lat1) Math_PI) (Fin 180);
          dLon = jdiv (jmul (jsub lon2 lon1) Math_PI) (Fin 180);
          a = jadd
                (jmul (Math_sin (jdiv dLat (Fin 2))) (Math_sin (jdiv dLat (Fin 2))))
                (jmul
                  (jmul
                    (jmul (Math_cos (jdiv (jmul lat1 Math_PI) (Fin 180)))
                          (Math_cos (jdiv (jmul lat2 Math_PI) (Fin 180))))
                    (Math_sin (jdiv dLon (Fin 2))))
                  (Math_sin (jdiv dLon (Fin 2))));
          c = jmul (Fin 2) (Math_atan2 (Math_sqrt a) (Math_sqrt (jsub (Fin 1) a)));
          distance = jmul R c
      in distance)"

section \<open>getEmissionFactor\<close>

text \<open>
  The values that occur while the fuel factors are averaged. \<open>fuelFactors[fuel]\<close> is a
  property read on an object literal: an own property gives its number, a name that
  \<open>Object.prototype\<close> defines gives the inherited function or object, any other name
  gives \<open>undefined\<close>. Adding a function or an object to a number concatenates their
  string forms; the result is a string that is not a numeric literal (it contains
  \<open>function\<close> or \<open>[object Object]\<close>), and stays one under further additions.
\<close>

datatype jsval =
    Undefined
  | Number jsnum
  | Inherited
  | Text

text \<open>A number is falsy when it is \<open>0\<close> or \<open>NaN\<close>.\<close>

fun truthy :: "jsval \<Rightarrow> bool" where
  "truthy Undefined = False"
| "truthy (Number x) = (x \<noteq> Fin 0 \<and> x \<noteq> NaN)"
| "truthy Inherited = True"
| "truthy Text = True"

text \<open>\<open>a || b\<close>\<close>

definition js_or :: "jsval \<Rightarrow> jsval \<Rightarrow> jsval" where
  "js_or a b = (if truthy a then a else b)"

text \<open>\<open>a + b\<close>: numeric addition of two numbers, string concatenation as soon as one
  operand is an object, a function or a string.\<close>

fun js_plus :: "jsval \<Rightarrow> jsval \<Rightarrow> jsval" where
  "js_plus (Number x) (Number y) = Number (jadd x y)"
| "js_plus (Number x) Undefined = Number NaN"
| "js_plus Undefined (Number y) = Number NaN"
| "js_plus Undefined Undefined = Number NaN"
| "js_plus _ _ = Text"

text \<open>The conversion to a number that \<open>/\<close> applies to its operands.\<close>

fun ToNumber :: "jsval \<Rightarrow> jsnum" where
  "ToNumber (Number x) = x"
| "ToNumber _ = NaN"

text \<open>The property names every object literal inherits from \<open>Object.prototype\<close>.\<close>

definition Object_prototype :: "string list" where
  "Object_prototype =
     [''constructor'', ''__proto__'', ''hasOwnProperty'', ''isPrototypeOf'',
      ''propertyIsEnumerable'', ''toLocaleString'', ''toString'', ''valueOf'',
      ''__defineGetter__'', ''__defineSetter__'', ''__lookupGetter__'',
      ''__lookupSetter__'']"

text \<open>
  \<^verbatim>\<open>
  const fuelFactors = { diesel: 0.12, cng: 0.10, bev: 0.04, hvo: 0.08 };
  \<close>
  and the read \<open>fuelFactors[fuel]\<close>.
\<close>

definition fuelFactors :: "(string \<times> real) list" where
  "fuelFactors = [(''diesel'', 0.12), (''cng'', 0.10), (''bev'', 0.04), (''hvo'', 0.08)]"

definition js_get :: "(string \<times> real) list \<Rightarrow> string \<Rightarrow> jsval" where
  "js_get obj key =
     (case map_of obj key of
        Some v \<Rightarrow> Number (Fin v)
      | None \<Rightarrow> if key \<in> set Object_prototype then Inherited else Undefined)"

text \<open>
  \<^verbatim>\<open>
  const getEmissionFactor = (transportMode, fuelTypes, cooledTransport) => {
    let emissionFactor = 0.1;
    switch(transportMode) {
      case 'truck':
        emissionFactor = 0.12;
        const selectedFuels = Object.keys(fuelTypes).filter(key => fuelTypes[key]);
        if (selectedFuels.length > 0) {
          const fuelFactors = {...};
          const avgFactor = selectedFuels.reduce((sum, fuel) =>
            sum + (fuelFactors[fuel] || 0.12), 0
          ) / selectedFuels.length;
          emissionFactor = avgFactor;
        }
        break;
      case 'ship': emissionFactor = 0.04; break;
      case 'plane': emissionFactor = 0.5; break;
      case 'train': emissionFactor = 0.03; break;
      case 'intermodal': emissionFactor = 0.08; break;
      default: emissionFactor = 0.1;
    }
    if (cooledTransport) { emissionFactor *= 1.3; }
    return emissionFactor;
  };
  \<close>
  \<open>fuelTypes\<close> is an object of boolean flags keyed by fuel name: the list of its own
  properties, in the order of \<open>Object.keys\<close>.
\<close>

definition selectedFuels :: "(string \<times> bool) list \<Rightarrow> string list" where
  "selectedFuels fuelTypes =
     filter (\<lambda>key. map_of fuelTypes key = Some True) (map fst fuelTypes)"

text \<open>The callback of \<open>reduce\<close>: \<open>(sum, fuel) => sum + (fuelFactors[fuel] || 0.12)\<close>.\<close>

definition add_factor :: "jsval \<Rightarrow> string \<Rightarrow> jsval" where
  "add_factor acc fuel = js_plus acc (js_or (js_get fuelFactors fuel) (Number (Fin 0.12)))"

definition avgFactor :: "string list \<Rightarrow> jsnum" where
  "avgFactor fuels =
     jdiv (ToNumber (foldl add_factor (Number (Fin 0)) fuels)) (Fin (real (length fuels)))"

definition getEmissionFactor :: "string \<Rightarrow> (string \<times> bool) list \<Rightarrow> bool \<Rightarrow> jsnum" where
  "getEmissionFactor transportMode fuelTypes cooledTransport =
     (let emissionFactor =
            (if transportMode = ''truck'' then
               (if length (selectedFuels fuelTypes) > 0
                then avgFactor (selectedFuels fuelTypes)
                else Fin 0.12)
             else if transportMode = ''ship'' then Fin 0.04
             else if transportMode = ''plane'' then Fin 0.5
             else if transportMode = ''train'' then Fin 0.03
             else if transportMode = ''intermodal'' then Fin 0.08
             else Fin 0.1)
      in if cooledTransport then jmul emissionFactor (Fin 1.3) else emissionFactor)"

text \<open>
  The truck refinement in the words of the specification, for comparison with the code:
  the arithmetic mean of the per-fuel factors, an unrecognized tag counting \<open>0.12\<close>,
  and the base factor \<open>0.12\<close> for an empty selection.
\<close>

definition spec_fuel_factor :: "string \<Rightarrow> real" where
  "spec_fuel_factor fuel =
     (if fuel = ''diesel'' then 0.12
      else if fuel = ''cng'' then 0.10
      else if fuel = ''bev'' then 0.04
      else if fuel = ''hvo'' then 0.08
      else 0.12)"

definition spec_truck_factor :: "string list \<Rightarrow> real" where
  "spec_truck_factor fuels =
     (if fuels = [] then 0.12
      else sum_list (map spec_fuel_factor fuels) / real (length fuels))"

section \<open>POST /api/calculate-carbon\<close>

text \<open>
  The request body, at the types a client of the calculator sends: numbers for the
  quantities, strings for the mode and the place names, an object of boolean flags for
  the fuels, \<open>{lat, lng}\<close> objects of numbers for the coordinates. \<open>None\<close> is a field
  that is absent: the destructuring then binds \<open>undefined\<close>. A number is the double
  that \<open>JSON.parse\<close> produced: finite, or an infinity when the literal is beyond the
  range (\<open>1e400\<close>).
\<close>

record coords =
  lat :: jsnum
  lng :: jsnum

record request =
  userId :: "string option"
  quantity :: "jsnum option"
  unit :: "string option"
  tonnesPerUnit :: "jsnum option"
  cooledTransport :: "bool option"
  transportMode :: "string option"
  fuelTypes :: "(string \<times> bool) list option"
  origin :: "string option"
  destination :: "string option"
  originCoords :: "coords option"
  destinationCoords :: "coords option"
  originDetails :: "string option"
  destinationDetails :: "string option"

text \<open>The document written to the collection \<open>emissionCalculations\<close>.\<close>

datatype timestamp = ServerTimestamp

record calculationData =
  cd_userId :: string
  cd_quantity :: jsnum
  cd_unit :: "string option"
  cd_tonnesPerUnit :: jsnum
  cd_totalWeight :: jsnum
  cd_cooledTransport :: bool
  cd_transportMode :: string
  cd_fuelTypes :: "(string \<times> bool) list"
  cd_origin :: string
  cd_destination :: string
  cd_originCoords :: coords
  cd_destinationCoords :: coords
  cd_originDetails :: "string option"
  cd_destinationDetails :: "string option"
  cd_distance :: jsnum
  cd_emissionFactor :: jsnum
  cd_carbonFootprint :: jsnum
  cd_treesNeeded :: jsnum
  cd_calculatedAt :: timestamp
  cd_createdAt :: string

text \<open>The \<open>data\<close> object of the 200 response.\<close>

record response_data =
  res_id :: string
  res_carbonFootprint :: jsnum
  res_totalWeight :: jsnum
  res_distance :: jsnum
  res_emissionFactor :: jsnum
  res_treesNeeded :: jsnum
  res_transportMode :: string
  res_cooledTransport :: bool

text \<open>
  A response is its status code and its JSON body: \<open>{success: false, message}\<close>,
  \<open>{success: false, message, error}\<close> or
  \<open>{success: true, message: 'Calculation completed successfully', data}\<close>.
\<close>

datatype body =
    Failure string
  | Failed string string
  | Completed response_data

type_synonym response = "nat \<times> body"

text \<open>
  What the handler reads from outside the request: the clock
  (\<open>new Date().toISOString()\<close>) and the outcome of the Firestore write, either the
  message of the error it rejects with or the id of the new document.
\<close>

record environment =
  now :: string
  add_outcome :: "string + string"

type_synonym collection = "(string \<times> calculationData) list"

text \<open>
  \<open>parseFloat\<close> of a number is that number, of \<open>undefined\<close> it is \<open>NaN\<close>.
\<close>

fun parseFloat :: "jsnum option \<Rightarrow> jsnum" where
  "parseFloat (Some x) = x"
| "parseFloat None = NaN"

text \<open>
  \<open>parseFloat(x.toFixed(f))\<close>: \<open>toFixed\<close> prints the decimal with \<open>f\<close> fraction
  digits nearest to \<open>x\<close>, the one larger in magnitude on a tie, and prints a number of
  magnitude \<open>10\<^sup>2\<^sup>1\<close> or more as it is; \<open>NaN\<close> and the infinities print as their names
  and parse back to themselves.
\<close>

fun toFixed :: "jsnum \<Rightarrow> nat \<Rightarrow> jsnum" where
  "toFixed NaN f = NaN"
| "toFixed PosInf f = PosInf"
| "toFixed NegInf f = NegInf"
| "toFixed (Fin x) f =
     (if 10 ^ 21 \<le> \<bar>x\<bar> then Fin x
      else Fin (sgn x * of_int \<lfloor>\<bar>x\<bar> * 10 ^ f + 1 / 2\<rfloor> / 10 ^ f))"

text \<open>
  \<^verbatim>\<open>
  app.post('/api/calculate-carbon', async (req, res) => {
    try {
      const { userId, quantity, unit, tonnesPerUnit, cooledTransport, transportMode,
              fuelTypes, origin, destination, originCoords, destinationCoords,
              originDetails, destinationDetails } = req.body;
      if (!quantity || !tonnesPerUnit || !transportMode || !origin || !destination) {
        return res.status(400).json({ success: false, message: 'Missing required fields' });
      }
      if (!originCoords || !destinationCoords) {
        return res.status(400).json({ success: false,
          message: 'Origin and destination coordinates are required' });
      }
      const totalWeight = parseFloat(quantity) * parseFloat(tonnesPerUnit);
      const distance = calculateDistance(originCoords.lat, originCoords.lng,
                                         destinationCoords.lat, destinationCoords.lng);
      const emissionFactor = getEmissionFactor(transportMode, fuelTypes || {}, cooledTransport);
      const carbonFootprint = totalWeight * distance * emissionFactor;
      const treesNeeded = Math.ceil(carbonFootprint / 21);
      const calculationData = { ... };
      const docRef = await db.collection('emissionCalculations').add(calculationData);
      res.status(200).json({ success: true, message: ..., data: { id: docRef.id, ... } });
    } catch (error) {
      res.status(500).json({ success: false,
        message: 'Failed to calculate carbon footprint', error: error.message });
    }
  });
  \<close>
  A number is falsy when it is \<open>0\<close> or \<open>NaN\<close>, a string when it is empty,
  \<open>undefined\<close> always; an object never is.
\<close>

record footprint =
  fp_totalWeight :: jsnum
  fp_distance :: jsnum
  fp_emissionFactor :: jsnum
  fp_carbonFootprint :: jsnum
  fp_treesNeeded :: jsnum

text \<open>
  The computation proper (from \<open>const totalWeight\<close> to \<open>const treesNeeded\<close>), for a
  request that passed both checks: \<open>mode\<close> is its transport mode, \<open>oc\<close> and \<open>dc\<close> its
  coordinates.
\<close>

definition compute_footprint :: "request \<Rightarrow> string \<Rightarrow> coords \<Rightarrow> coords \<Rightarrow> footprint" where
  "compute_footprint req mode oc dc =
     (let totalWeight = jmul (parseFloat (quantity req)) (parseFloat (tonnesPerUnit req));
          distance = calculateDistance (lat oc) (lng oc) (lat dc) (lng dc);
          emissionFactor =
            getEmissionFactor mode (case fuelTypes req of Some fs \<Rightarrow> fs | None \<Rightarrow> [])
              (cooledTransport req = Some True);
          carbonFootprint = jmul (jmul totalWeight distance) emissionFactor;
          treesNeeded = Math_ceil (jdiv carbonFootprint (Fin 21))
      in \<lparr> fp_totalWeight = totalWeight, fp_distance = distance,
           fp_emissionFactor = emissionFactor, fp_carbonFootprint = carbonFootprint,
           fp_treesNeeded = treesNeeded \<rparr>)"

text \<open>The object \<open>calculationData\<close> built from the request and the computed values.\<close>

definition make_calculationData :: "environment \<Rightarrow> request \<Rightarrow> string \<Rightarrow> string \<Rightarrow> string \<Rightarrow>
    coords \<Rightarrow> coords \<Rightarrow> footprint \<Rightarrow> calculationData" where
  "make_calculationData env req mode orig dest oc dc fp =
     \<lparr> cd_userId = (case userId req of Some u \<Rightarrow> if u = [] then ''anonymous'' else u
                                       | None \<Rightarrow> ''anonymous''),
       cd_quantity = parseFloat (quantity req),
       cd_unit = unit req,
       cd_tonnesPerUnit = parseFloat (tonnesPerUnit req),
       cd_totalWeight = fp_totalWeight fp,
       cd_cooledTransport = (cooledTransport req = Some True),
       cd_transportMode = mode,
       cd_fuelTypes = (case fuelTypes req of Some fs \<Rightarrow> fs | None \<Rightarrow> []),
       cd_origin = orig,
       cd_destination = dest,
       cd_originCoords = oc,
       cd_destinationCoords = dc,
       cd_originDetails = originDetails req,
       cd_destinationDetails = destinationDetails req,
       cd_distance = toFixed (fp_distance fp) 2,
       cd_emissionFactor = toFixed (fp_emissionFactor fp) 4,
       cd_carbonFootprint = toFixed (fp_carbonFootprint fp) 2,
       cd_treesNeeded = fp_treesNeeded fp,
       cd_calculatedAt = ServerTimestamp,
       cd_createdAt = now env \<rparr>"

definition calculate_carbon :: "environment \<Rightarrow> request \<Rightarrow> collection \<Rightarrow> response \<times> collection" where
  "calculate_carbon env req db =
     (case (quantity req, tonnesPerUnit req, transportMode req, origin req, destination req) of
        (Some q, Some t, Some mode, Some orig, Some dest) \<Rightarrow>
          if \<not> truthy (Number q) \<or> \<not> truthy (Number t) \<or> mode = [] \<or> orig = [] \<or> dest = []
          then ((400, Failure ''Missing required fields''), db)
          else (case (originCoords req, destinationCoords req) of
                  (Some oc, Some dc) \<Rightarrow>
                    (let calculationData =
                           make_calculationData env req mode orig dest oc dc
                             (compute_footprint req mode oc dc)
                     in case add_outcome env of
                          Inl message \<Rightarrow>
                            ((500, Failed ''Failed to calculate carbon footprint'' message), db)
                        | Inr docRef_id \<Rightarrow>
                            ((200, Completed
                               \<lparr> res_id = docRef_id,
                                 res_carbonFootprint = cd_carbonFootprint calculationData,
                                 res_totalWeight = cd_totalWeight calculationData,
                                 res_distance = cd_distance calculationData,
                                 res_emissionFactor = cd_emissionFactor calculationData,
                                 res_treesNeeded = cd_treesNeeded calculationData,
                                 res_transportMode = cd_transportMode calculationData,
                                 res_cooledTransport = cd_cooledTransport calculationData \<rparr>),
                             db @ [(docRef_id, calculationData)]))
                | _ \<Rightarrow> ((400, Failure ''Origin and destination coordinates are required''), db))
      | _ \<Rightarrow> ((400, Failure ''Missing required fields''), db))"

text \<open>\<open>!x\<close> for a number and for a string that may be absent.\<close>

definition falsy_number :: "jsnum option \<Rightarrow> bool" where
  "falsy_number x = (case x of None \<Rightarrow> True | Some v \<Rightarrow> v = Fin 0 \<or> v = NaN)"

definition falsy_string :: "string option \<Rightarrow> bool" where
  "falsy_string x = (case x of None \<Rightarrow> True | Some v \<Rightarrow> v = [])"

section \<open>Properties of the number model\<close>

lemma overflow_threshold_large: "2 ^ 1023 \<le> overflow_threshold"
  by (simp add: overflow_threshold_def)

lemma underflow_threshold_small: "0 < underflow_threshold" "underflow_threshold \<le> 1 / 2 ^ 1000"
  by (simp_all add: underflow_threshold_def field_simps)

lemma fl_zero: "fl 0 = Fin 0"
  using overflow_threshold_large underflow_threshold_small(1)
  by (simp add: fl_def)

text \<open>A value of moderate size is kept as it is.\<close>

lemma fl_moderate:
  assumes "1 / 2 ^ 64 \<le> \<bar>x\<bar>" and "\<bar>x\<bar> \<le> 2 ^ 64"
  shows "fl x = Fin x"
proof -
  have "(2::real) ^ 64 < 2 ^ 1023"
    by (intro power_strict_increasing) simp_all
  then have hi: "\<bar>x\<bar> < overflow_threshold"
    using assms(2) overflow_threshold_large by linarith
  have "(1::real) / 2 ^ 1000 < 1 / 2 ^ 64"
    by (simp add: field_simps)
  then have lo: "underflow_threshold < \<bar>x\<bar>"
    using assms(1) underflow_threshold_small(2) by linarith
  from hi lo have "\<not> overflow_threshold \<le> x" "\<not> x \<le> - overflow_threshold"
    "\<not> \<bar>x\<bar> \<le> underflow_threshold"
    by linarith+
  then show ?thesis
    by (simp add: fl_def)
qed

lemma fl_overflow: "overflow_threshold \<le> x \<Longrightarrow> fl x = PosInf"
  by (simp add: fl_def)

lemma jmul_commute: "jmul x y = jmul y x"
  by (cases x; cases y) (simp_all add: mult.commute)

section \<open>Properties of calculateDistance\<close>

subsection \<open>A quarter of a great circle\<close>

text \<open>
  Six decimals of \<open>\<pi>\<close>, from Machin's formula and the alternating series of the
  arctangent, whose partial sums of even and odd length enclose the limit.
\<close>

lemma arctan_partial_sums:
  fixes x :: real
  assumes "0 < x" "x \<le> 1"
  shows "(\<Sum>i<2*n. (- 1)^i * (1 / real (i * 2 + 1) * x ^ (i * 2 + 1))) \<le> arctan x"
    and "arctan x \<le> (\<Sum>i<2*n+1. (- 1)^i * (1 / real (i * 2 + 1) * x ^ (i * 2 + 1)))"
proof -
  have ax: "\<bar>x\<bar> \<le> 1"
    using assms by simp
  have pos: "0 < 1 / real (0 * 2 + 1) * x ^ (0 * 2 + 1)"
    using assms by simp
  note enclosed = summable_Leibniz(2)[OF zeroseq_arctan_series[OF ax]
      monoseq_arctan_series[OF ax], rule_format, OF pos, of n]
  show "(\<Sum>i<2*n. (- 1)^i * (1 / real (i * 2 + 1) * x ^ (i * 2 + 1))) \<le> arctan x"
    using enclosed unfolding arctan_series[OF ax] by simp
  show "arctan x \<le> (\<Sum>i<2*n+1. (- 1)^i * (1 / real (i * 2 + 1) * x ^ (i * 2 + 1)))"
    using enclosed unfolding arctan_series[OF ax] by simp
qed

lemma arctan_fifth_lower: "(19739555978 / 100000000000 :: real) \<le> arctan (1 / 5)"
proof -
  have "(\<Sum>i<2*3. (- 1)^i * (1 / real (i * 2 + 1) * (1 / 5 :: real) ^ (i * 2 + 1))) \<le> arctan (1 / 5)"
    by (rule arctan_partial_sums(1)) simp_all
  moreover have "(19739555978 / 100000000000 :: real)
      \<le> (\<Sum>i<2*3. (- 1)^i * (1 / real (i * 2 + 1) * (1 / 5 :: real) ^ (i * 2 + 1)))"
    by (simp add: eval_nat_numeral)
  ultimately show ?thesis
    by linarith
qed

lemma arctan_fifth_upper: "arctan (1 / 5) \<le> (19739556166 / 100000000000 :: real)"
proof -
  have "arctan (1 / 5) \<le> (\<Sum>i<2*2+1. (- 1)^i * (1 / real (i * 2 + 1) * (1 / 5 :: real) ^ (i * 2 + 1)))"
    by (rule arctan_partial_sums(2)) simp_all
  moreover have "(\<Sum>i<2*2+1. (- 1)^i * (1 / real (i * 2 + 1) * (1 / 5 :: real) ^ (i * 2 + 1)))
      \<le> (19739556166 / 100000000000 :: real)"
    by (simp add: eval_nat_numeral)
  ultimately show ?thesis
    by linarith
qed

lemma arctan_239th_upper: "arctan (1 / 239) \<le> (1 / 239 :: real)"
proof -
  have "arctan (1 / 239) \<le> (\<Sum>i<2*0+1. (- 1)^i * (1 / real (i * 2 + 1) * (1 / 239 :: real) ^ (i * 2 + 1)))"
    by (rule arctan_partial_sums(2)) simp_all
  then show ?thesis
    by simp
qed

lemma arctan_239th_lower: "(418407 / 100000000 :: real) \<le> arctan (1 / 239)"
proof -
  have "(\<Sum>i<2*1. (- 1)^i * (1 / real (i * 2 + 1) * (1 / 239 :: real) ^ (i * 2 + 1))) \<le> arctan (1 / 239)"
    by (rule arctan_partial_sums(1)) simp_all
  moreover have "(418407 / 100000000 :: real)
      \<le> (\<Sum>i<2*1. (- 1)^i * (1 / real (i * 2 + 1) * (1 / 239 :: real) ^ (i * 2 + 1)))"
    by (simp add: eval_nat_numeral)
  ultimately show ?thesis
    by linarith
qed

lemma pi_six_decimals: "(3141592 / 1000000 :: real) < pi" "pi < (3141593 / 1000000 :: real)"
proof -
  have m: "pi = 16 * arctan (1 / 5) - 4 * arctan (1 / 239)"
    using machin by simp
  show "(3141592 / 1000000 :: real) < pi"
    unfolding m using arctan_fifth_lower arctan_239th_upper by linarith
  show "pi < (3141593 / 1000000 :: real)"
    unfolding m using arctan_fifth_upper arctan_239th_lower by linarith
qed

text \<open>The multiples of \<open>\<pi>\<close> and the roots that occur are of moderate size.\<close>

lemma fl_pi_multiple:
  assumes "1 / 2 ^ 32 \<le> k" and "k \<le> 2 ^ 32"
  shows "fl (k * pi) = Fin (k * pi)"
proof (rule fl_moderate)
  have k: "0 < k"
    using assms(1) by (simp add: field_simps)
  have "1 / 2 ^ 32 * 1 \<le> k * pi"
    using assms(1) pi_six_decimals(1) k by (intro mult_mono) simp_all
  moreover have "(1 :: real) / 2 ^ 64 \<le> 1 / 2 ^ 32 * 1"
    by simp
  ultimately show "1 / 2 ^ 64 \<le> \<bar>k * pi\<bar>"
    using k by simp
  have "k * pi \<le> 2 ^ 32 * 4"
    using assms(2) pi_six_decimals(2) k by (intro mult_mono) simp_all
  moreover have "(2 :: real) ^ 32 * 4 \<le> 2 ^ 64"
    by simp
  ultimately show "\<bar>k * pi\<bar> \<le> 2 ^ 64"
    using k by simp
qed

lemma fl_half_sqrt2: "fl (sqrt 2 / 2) = Fin (sqrt 2 / 2)"
proof (rule fl_moderate)
  have b: "1 \<le> sqrt 2" "sqrt 2 \<le> 2"
    by (simp_all add: real_le_rsqrt real_le_lsqrt)
  have p: "(1 :: real) / 2 ^ 64 \<le> 1 / 2" "(1 :: real) \<le> 2 ^ 64"
    by simp_all
  have "\<bar>sqrt 2 / 2\<bar> = sqrt 2 / 2"
    by simp
  with b p show "1 / 2 ^ 64 \<le> \<bar>sqrt 2 / 2\<bar>" "\<bar>sqrt 2 / 2\<bar> \<le> 2 ^ 64"
    by linarith+
qed

lemma fl_numeral_moderate [simp]:
  "fl 1 = Fin 1" "fl 90 = Fin 90" "fl (1 / 2) = Fin (1 / 2)"
  by (simp_all add: fl_moderate)

lemma calculateDistance_quarter:
  "calculateDistance (Fin 0) (Fin 0) (Fin 0) (Fin 90) = Fin (6371 * pi / 2)"
proof -
  have zero: "jsub (Fin 0) (Fin 0) = Fin 0" "jmul (Fin 0) Math_PI = Fin 0"
    "jdiv (Fin 0) (Fin 180) = Fin 0" "jdiv (Fin 0) (Fin 2) = Fin 0"
    "Math_sin (Fin 0) = Fin 0" "Math_cos (Fin 0) = Fin 1" "jmul (Fin 0) (Fin 0) = Fin 0"
    by (simp_all add: fl_zero Math_PI_def)
  have dLon: "jdiv (jmul (jsub (Fin 90) (Fin 0)) Math_PI) (Fin 180) = Fin (pi / 2)"
    using fl_pi_multiple[of 90] fl_pi_multiple[of "1 / 2"]
    by (simp add: Math_PI_def)
  have half: "jdiv (Fin (pi / 2)) (Fin 2) = Fin (pi / 4)"
    using fl_pi_multiple[of "1 / 4"] by simp
  have sin45: "Math_sin (Fin (pi / 4)) = Fin (sqrt 2 / 2)"
    by (simp add: sin_45 fl_half_sqrt2)
  have prod: "jmul (jmul (jmul (Fin 1) (Fin 1)) (Fin (sqrt 2 / 2))) (Fin (sqrt 2 / 2)) = Fin (1 / 2)"
    by (simp add: fl_half_sqrt2)
  have a: "jadd (Fin 0) (Fin (1 / 2)) = Fin (1 / 2)" "jsub (Fin 1) (Fin (1 / 2)) = Fin (1 / 2)"
    by simp_all
  have r: "sqrt (1 / 2) = sqrt 2 / 2"
    by (rule real_sqrt_unique) (simp_all add: power2_eq_square)
  have root: "Math_sqrt (Fin (1 / 2)) = Fin (sqrt 2 / 2)"
    unfolding Math_sqrt.simps r by (simp only: fl_half_sqrt2) simp
  have angle: "Math_atan2 (Fin (sqrt 2 / 2)) (Fin (sqrt 2 / 2)) = Fin (pi / 4)"
    using fl_pi_multiple[of "1 / 4"] by (simp add: atan2_real_def arctan_one)
  have c: "jmul (Fin 2) (Fin (pi / 4)) = Fin (pi / 2)"
    using fl_pi_multiple[of "1 / 2"] by simp
  have d: "jmul (Fin 6371) (Fin (pi / 2)) = Fin (6371 * pi / 2)"
    using fl_pi_multiple[of "6371 / 2"] by simp
  show ?thesis
    unfolding calculateDistance_def Let_def
    by (simp only: zero dLon half sin45 prod a root angle c d)
qed

text \<open>
  C8. From \<open>{lat: 0, lng: 0}\<close> to \<open>{lat: 0, lng: 90}\<close> the distance is
  \<open>6371 \<cdot> \<pi> / 2\<close>, a quarter of the great circle, and this number is within
  \<open>0.05\<close> of \<open>10007.5\<close>: it is \<open>10007.5\<close> when rounded to one decimal.
\<close>

theorem calculateDistance_quarter_circle:
  "calculateDistance (Fin 0) (Fin 0) (Fin 0) (Fin 90) = Fin (6371 * pi / 2) \<and>
   \<bar>6371 * pi / 2 - 10007.5\<bar> < 0.05"
proof
  show "calculateDistance (Fin 0) (Fin 0) (Fin 0) (Fin 90) = Fin (6371 * pi / 2)"
    by (rule calculateDistance_quarter)
  have "(1000754 / 100 :: real) < 6371 * pi / 2" "6371 * pi / 2 < (1000755 / 100 :: real)"
    using pi_six_decimals by linarith+
  then show "\<bar>6371 * pi / 2 - 10007.5\<bar> < 0.05"
    by (simp add: abs_less_iff)
qed

subsection \<open>From a point to itself\<close>

lemma fl_bounded:
  assumes "\<bar>x\<bar> \<le> b" and "b \<le> 2 ^ 64"
  shows "\<exists>y. fl x = Fin y \<and> \<bar>y\<bar> \<le> b"
proof -
  have "(2::real) ^ 64 < 2 ^ 1023"
    by (intro power_strict_increasing) simp_all
  with assms overflow_threshold_large
  have "\<not> overflow_threshold \<le> x" "\<not> x \<le> - overflow_threshold"
    by linarith+
  moreover have "0 \<le> b"
    using assms(1) by linarith
  ultimately show ?thesis
    using assms(1) by (simp add: fl_def)
qed

lemma Math_cos_degrees_finite:
  assumes "\<bar>la\<bar> \<le> 90"
  shows "\<exists>c. Math_cos (jdiv (jmul (Fin la) Math_PI) (Fin 180)) = Fin c \<and> \<bar>c\<bar> \<le> 1"
proof -
  have "\<bar>la * pi\<bar> \<le> 90 * 4"
    unfolding abs_mult using assms pi_six_decimals(2) by (intro mult_mono) simp_all
  then have "\<bar>la * pi\<bar> \<le> 360"
    by simp
  from fl_bounded[OF this] obtain v where v: "fl (la * pi) = Fin v" "\<bar>v\<bar> \<le> 360"
    by auto
  have "\<bar>v / 180\<bar> \<le> 2"
    using v(2) by simp
  from fl_bounded[OF this] obtain w where w: "fl (v / 180) = Fin w"
    by auto
  have "\<bar>cos w\<bar> \<le> 1"
    by simp
  from fl_bounded[OF this] obtain c where "fl (cos w) = Fin c" "\<bar>c\<bar> \<le> 1"
    by auto
  with v w show ?thesis
    by (simp add: Math_PI_def)
qed

text \<open>
  For a latitude between \<open>-90\<close> and \<open>90\<close> and any finite longitude, the distance from
  a point to itself is \<open>0\<close>. (This also holds in doubles: the differences are exactly
  \<open>0\<close>, so \<open>a\<close> is \<open>0\<close>.)
\<close>

lemma calculateDistance_same:
  assumes "\<bar>la\<bar> \<le> 90"
  shows "calculateDistance (Fin la) (Fin lo) (Fin la) (Fin lo) = Fin 0"
proof -
  obtain c where c: "Math_cos (jdiv (jmul (Fin la) Math_PI) (Fin 180)) = Fin c"
    and c1: "\<bar>c\<bar> \<le> 1"
    using Math_cos_degrees_finite[OF assms] by blast
  have "\<bar>c * c\<bar> \<le> 1 * 1"
    unfolding abs_mult using c1 by (intro mult_mono) simp_all
  then have "\<bar>c * c\<bar> \<le> 1"
    by simp
  from fl_bounded[OF this] obtain c2 where c2: "fl (c * c) = Fin c2"
    by auto
  have zero: "jsub (Fin la) (Fin la) = Fin 0" "jsub (Fin lo) (Fin lo) = Fin 0"
    "jmul (Fin 0) Math_PI = Fin 0" "jdiv (Fin 0) (Fin 180) = Fin 0"
    "jdiv (Fin 0) (Fin 2) = Fin 0" "Math_sin (Fin 0) = Fin 0"
    "jmul (Fin 0) (Fin 0) = Fin 0" "jmul (Fin c2) (Fin 0) = Fin 0"
    "jadd (Fin 0) (Fin 0) = Fin 0" "Math_sqrt (Fin 0) = Fin 0"
    "jsub (Fin 1) (Fin 0) = Fin 1" "Math_sqrt (Fin 1) = Fin 1"
    "Math_atan2 (Fin 0) (Fin 1) = Fin 0" "jmul (Fin 2) (Fin 0) = Fin 0"
    "jmul (Fin 6371) (Fin 0) = Fin 0"
    by (simp_all add: fl_zero Math_PI_def atan2_real_def)
  have cc: "jmul (Fin c) (Fin c) = Fin c2"
    using c2 by simp
  show ?thesis
    unfolding calculateDistance_def Let_def
    by (simp only: zero c cc)
qed

subsection \<open>A haversine term above 1\<close>

text \<open>
  The last three lines of \<open>calculateDistance\<close> return \<open>NaN\<close> as soon as \<open>a\<close> exceeds
  \<open>1\<close> by one unit in the last place: \<open>1 - a\<close> is negative and has no square root.
  In doubles \<open>a\<close> takes the value \<open>1 + 2\<^sup>-\<^sup>5\<^sup>2\<close> for the valid points \<open>(8, 0)\<close> and
  \<open>(-8, 180)\<close>, where the distance is half the circumference; the code does not clamp
  \<open>a\<close> to \<open>[0, 1]\<close>. There the program returns neither the value of the Haversine
  formula (C5) nor a distance that is non-negative and equal to that of the reverse
  call (C6). The model, which has no rounding of the last bit, computes \<open>a = 1\<close> at
  these points, so nothing is proved about \<open>calculateDistance\<close> there.
\<close>

lemma calculateDistance_tail_above_one:
  assumes "1 + 1 / 2 ^ 52 \<le> a" and "a \<le> 2"
  shows "jmul (Fin 6371)
           (jmul (Fin 2) (Math_atan2 (Math_sqrt (Fin a)) (Math_sqrt (jsub (Fin 1) (Fin a))))) = NaN"
proof -
  have p: "(1 :: real) / 2 ^ 64 \<le> 1 / 2 ^ 52" "(1 :: real) \<le> 2 ^ 64" "(0 :: real) < 1 / 2 ^ 52"
    by simp_all
  have "fl (1 - a) = Fin (1 - a)"
  proof (rule fl_moderate)
    show "1 / 2 ^ 64 \<le> \<bar>1 - a\<bar>"
      using assms(1) p(1,3) by linarith
    show "\<bar>1 - a\<bar> \<le> 2 ^ 64"
      using assms p(2,3) by linarith
  qed
  moreover have "1 - a < 0"
    using assms(1) p(3) by linarith
  ultimately have "Math_sqrt (jsub (Fin 1) (Fin a)) = NaN"
    by simp
  then show ?thesis
    by (cases "Math_sqrt (Fin a)") simp_all
qed

section \<open>Properties of getEmissionFactor\<close>

subsection \<open>The truck average\<close>

lemma spec_fuel_factor_range: "1 / 25 \<le> spec_fuel_factor fuel" "spec_fuel_factor fuel \<le> 3 / 25"
  by (simp_all add: spec_fuel_factor_def)

lemma sum_list_factor_range:
  "real (length fuels) / 25 \<le> sum_list (map spec_fuel_factor fuels)"
  "sum_list (map spec_fuel_factor fuels) \<le> 3 * real (length fuels) / 25"
proof (induction fuels)
  case Nil
  show "real (length ([]::string list)) / 25 \<le> sum_list (map spec_fuel_factor [])"
    "sum_list (map spec_fuel_factor []) \<le> 3 * real (length ([]::string list)) / 25"
    by simp_all
next
  case (Cons f fs)
  show "real (length (f # fs)) / 25 \<le> sum_list (map spec_fuel_factor (f # fs))"
    using Cons.IH(1) spec_fuel_factor_range(1)[of f] by (simp add: field_simps)
  show "sum_list (map spec_fuel_factor (f # fs)) \<le> 3 * real (length (f # fs)) / 25"
    using Cons.IH(2) spec_fuel_factor_range(2)[of f] by (simp add: field_simps)
qed

lemma add_factor_ordinary:
  assumes "fuel \<notin> set Object_prototype" and "0 \<le> acc" and "acc \<le> 2 ^ 63"
  shows "add_factor (Number (Fin acc)) fuel = Number (Fin (acc + spec_fuel_factor fuel))"
proof -
  have "fl (acc + spec_fuel_factor fuel) = Fin (acc + spec_fuel_factor fuel)"
  proof (rule fl_moderate)
    have p: "(1 :: real) / 2 ^ 64 \<le> 1 / 25" "(2 :: real) ^ 63 + 3 / 25 \<le> 2 ^ 64"
      by simp_all
    show "1 / 2 ^ 64 \<le> \<bar>acc + spec_fuel_factor fuel\<bar>"
      using assms(2) spec_fuel_factor_range(1)[of fuel] p(1) by linarith
    show "\<bar>acc + spec_fuel_factor fuel\<bar> \<le> 2 ^ 64"
      using assms(2,3) spec_fuel_factor_range[of fuel] p(2) by linarith
  qed
  moreover have "js_or (js_get fuelFactors fuel) (Number (Fin 0.12)) =
      Number (Fin (spec_fuel_factor fuel))"
    using assms(1) by (simp add: js_get_def fuelFactors_def js_or_def spec_fuel_factor_def)
  ultimately show ?thesis
    by (simp add: add_factor_def)
qed

lemma foldl_add_factor_ordinary:
  assumes "set fuels \<inter> set Object_prototype = {}" and "0 \<le> acc"
    and "acc + 3 * real (length fuels) / 25 \<le> 2 ^ 63"
  shows "foldl add_factor (Number (Fin acc)) fuels =
     Number (Fin (acc + sum_list (map spec_fuel_factor fuels)))"
  using assms
proof (induction fuels arbitrary: acc)
  case Nil
  then show ?case
    by simp
next
  case (Cons f fs)
  from Cons.prems(1) have f: "f \<notin> set Object_prototype"
    and fs: "set fs \<inter> set Object_prototype = {}"
    by auto
  have "0 \<le> 3 * real (length (f # fs)) / 25"
    by simp
  with Cons.prems(3) have small: "acc \<le> 2 ^ 63"
    by linarith
  have step: "add_factor (Number (Fin acc)) f = Number (Fin (acc + spec_fuel_factor f))"
    by (rule add_factor_ordinary[OF f Cons.prems(2) small])
  have nonneg: "0 \<le> acc + spec_fuel_factor f"
    using Cons.prems(2) spec_fuel_factor_range(1)[of f] by linarith
  have room: "acc + spec_fuel_factor f + 3 * real (length fs) / 25 \<le> 2 ^ 63"
    using Cons.prems(3) spec_fuel_factor_range(2)[of f] by (simp add: field_simps)
  show ?case
    by (simp add: step Cons.IH[OF fs nonneg room] add.assoc)
qed

lemma avgFactor_ordinary:
  assumes "set fuels \<inter> set Object_prototype = {}" and "fuels \<noteq> []"
    and "length fuels \<le> 2 ^ 32"
  shows "avgFactor fuels = Fin (spec_truck_factor fuels)"
proof -
  let ?n = "real (length fuels)"
  let ?s = "sum_list (map spec_fuel_factor fuels)"
  have n: "0 < ?n" "?n \<le> 2 ^ 32"
    using assms(2,3) by (simp_all add: of_nat_le_iff[of "length fuels" "2 ^ 32", where ?'a = real, simplified])
  have "0 + 3 * ?n / 25 \<le> 2 ^ 63"
    using n(2) by simp
  from foldl_add_factor_ordinary[OF assms(1) order_refl this]
  have sum: "foldl add_factor (Number (Fin 0)) fuels = Number (Fin ?s)"
    by simp
  have lo: "1 / 25 \<le> ?s / ?n"
    using sum_list_factor_range(1)[of fuels] n(1) by (simp add: field_simps)
  have hi: "?s / ?n \<le> 3 / 25"
    using sum_list_factor_range(2)[of fuels] n(1) by (simp add: field_simps)
  have p: "(1 :: real) / 2 ^ 64 \<le> 1 / 25" "(3 :: real) / 25 \<le> 2 ^ 64"
    by simp_all
  define m where "m = ?s / ?n"
  have "fl m = Fin m"
  proof (rule fl_moderate)
    show "1 / 2 ^ 64 \<le> \<bar>m\<bar>"
      using lo p(1) unfolding m_def [symmetric] by linarith
    show "\<bar>m\<bar> \<le> 2 ^ 64"
      using lo hi p(2) unfolding m_def [symmetric] by linarith
  qed
  then have "fl (?s / ?n) = Fin (?s / ?n)"
    unfolding m_def .
  then show ?thesis
    using n(1) assms(2) by (simp add: avgFactor_def sum spec_truck_factor_def)
qed

text \<open>
  For tags that \<open>Object.prototype\<close> does not define, recognized or not, the truck
  factor is the specified mean, and \<open>0.12\<close> when nothing is selected.
\<close>

lemma getEmissionFactor_truck_ordinary:
  assumes "set (selectedFuels fuels) \<inter> set Object_prototype = {}"
    and "length (selectedFuels fuels) \<le> 2 ^ 32"
  shows "getEmissionFactor ''truck'' fuels False = Fin (spec_truck_factor (selectedFuels fuels))"
proof (cases "selectedFuels fuels = []")
  case True
  then show ?thesis
    by (simp add: getEmissionFactor_def spec_truck_factor_def)
next
  case False
  then show ?thesis
    by (simp add: getEmissionFactor_def avgFactor_ordinary[OF assms(1) False assms(2)])
qed

lemma getEmissionFactor_truck_examples:
  "getEmissionFactor ''truck'' [(''diesel'', True), (''bev'', True)] False = Fin 0.08"
  "getEmissionFactor ''truck'' [(''diesel'', True), (''biogas'', True)] False = Fin 0.12"
  "getEmissionFactor ''truck'' [(''diesel'', False), (''bev'', False)] False = Fin 0.12"
  "getEmissionFactor ''truck'' [] False = Fin 0.12"
  by (simp_all add: getEmissionFactor_def selectedFuels_def avgFactor_def add_factor_def
      js_get_def fuelFactors_def Object_prototype_def js_or_def fl_moderate)

text \<open>
  C2. The truck factor is meant to be the mean of the per-fuel factors with every
  unrecognized tag counting \<open>0.12\<close>. For the selection \<open>{constructor: true}\<close> the
  specified mean is \<open>0.12\<close>, but the code returns \<open>NaN\<close>: \<open>fuelFactors['constructor']\<close>
  is the inherited function \<open>Object\<close>, which is truthy, so the fallback \<open>|| 0.12\<close> is
  not taken and the sum becomes a string.
\<close>

theorem getEmissionFactor_truck_inherited_tag:
  "getEmissionFactor ''truck'' [(''constructor'', True)] False = NaN \<and>
   spec_truck_factor (selectedFuels [(''constructor'', True)]) = 0.12"
  by (simp add: getEmissionFactor_def selectedFuels_def avgFactor_def add_factor_def
      js_get_def fuelFactors_def Object_prototype_def js_or_def spec_truck_factor_def
      spec_fuel_factor_def)

subsection \<open>Cooling and the other modes\<close>

lemma getEmissionFactor_cooled:
  "getEmissionFactor mode fuels True = jmul (getEmissionFactor mode fuels False) (Fin 1.3)"
  by (simp add: getEmissionFactor_def Let_def)

text \<open>
  C3. For every mode and every fuel selection the factor with cooling is \<open>1.3\<close> times
  the factor without (\<open>NaN\<close> when the latter is \<open>NaN\<close>).
\<close>

theorem getEmissionFactor_cooling:
  "getEmissionFactor mode fuels True = jmul (Fin 1.3) (getEmissionFactor mode fuels False)"
  by (simp only: getEmissionFactor_cooled jmul_commute[of "Fin 1.3"])

lemma getEmissionFactor_other:
  "mode \<noteq> ''truck'' \<Longrightarrow> getEmissionFactor mode fuels False =
     Fin (if mode = ''ship'' then 0.04 else if mode = ''plane'' then 0.5
          else if mode = ''train'' then 0.03 else if mode = ''intermodal'' then 0.08 else 0.1)"
  by (simp add: getEmissionFactor_def)

text \<open>
  C4. Without cooling and whatever the fuel selection, the factor is \<open>0.04\<close> for ship,
  \<open>0.5\<close> for plane, \<open>0.03\<close> for train, \<open>0.08\<close> for intermodal, and \<open>0.10\<close> for
  every mode string other than these four and truck.
\<close>

theorem getEmissionFactor_base_factors:
  "getEmissionFactor ''ship'' fuels False = Fin 0.04 \<and>
   getEmissionFactor ''plane'' fuels False = Fin 0.5 \<and>
   getEmissionFactor ''train'' fuels False = Fin 0.03 \<and>
   getEmissionFactor ''intermodal'' fuels False = Fin 0.08 \<and>
   (mode \<notin> {''truck'', ''ship'', ''plane'', ''train'', ''intermodal''} \<longrightarrow>
      getEmissionFactor mode fuels False = Fin 0.10)"
  by (simp add: getEmissionFactor_other)

theorem getEmissionFactor_base_factors_witness:
  "''unknown-mode'' \<notin> {''truck'', ''ship'', ''plane'', ''train'', ''intermodal''} \<and>
   getEmissionFactor ''unknown-mode'' [(''bev'', True)] False = Fin 0.10 \<and>
   getEmissionFactor ''ship'' [(''bev'', True)] False = Fin 0.04"
  using getEmissionFactor_base_factors[of "[(''bev'', True)]" "''unknown-mode''"]
  by simp

section \<open>Properties of the handler\<close>

subsection \<open>Validation\<close>

lemma calculate_carbon_missing:
  assumes "falsy_number (quantity req) \<or> falsy_number (tonnesPerUnit req) \<or>
    falsy_string (transportMode req) \<or> falsy_string (origin req) \<or>
    falsy_string (destination req)"
  shows "calculate_carbon env req db = ((400, Failure ''Missing required fields''), db)"
  using assms
  by (auto simp: calculate_carbon_def falsy_number_def falsy_string_def split: option.splits)

lemma calculate_carbon_no_coords:
  assumes "originCoords req = None \<or> destinationCoords req = None"
    and "\<not> (falsy_number (quantity req) \<or> falsy_number (tonnesPerUnit req) \<or>
      falsy_string (transportMode req) \<or> falsy_string (origin req) \<or>
      falsy_string (destination req))"
  shows "calculate_carbon env req db =
    ((400, Failure ''Origin and destination coordinates are required''), db)"
  using assms
  by (auto simp: calculate_carbon_def falsy_number_def falsy_string_def split: option.splits)

text \<open>
  C10. A request in which \<open>quantity\<close>, \<open>tonnesPerUnit\<close>, \<open>transportMode\<close>,
  \<open>origin\<close> or \<open>destination\<close> is absent or falsy (a quantity of \<open>0\<close>, an empty
  string) is answered with status 400 and the message \<open>Missing required fields\<close>; a
  request without \<open>originCoords\<close> or \<open>destinationCoords\<close> is answered with status 400
  as well. In both cases the collection is left as it was and the response carries no
  computed value.
\<close>

theorem calculate_carbon_rejects:
  "(falsy_number (quantity req) \<or> falsy_number (tonnesPerUnit req) \<or>
    falsy_string (transportMode req) \<or> falsy_string (origin req) \<or>
    falsy_string (destination req) \<longrightarrow>
      calculate_carbon env req db = ((400, Failure ''Missing required fields''), db)) \<and>
   (originCoords req = None \<or> destinationCoords req = None \<longrightarrow>
      calculate_carbon env req db =
        ((400, Failure
           (if falsy_number (quantity req) \<or> falsy_number (tonnesPerUnit req) \<or>
               falsy_string (transportMode req) \<or> falsy_string (origin req) \<or>
               falsy_string (destination req)
            then ''Missing required fields''
            else ''Origin and destination coordinates are required'')), db))"
proof (intro conjI impI)
  assume "falsy_number (quantity req) \<or> falsy_number (tonnesPerUnit req) \<or>
    falsy_string (transportMode req) \<or> falsy_string (origin req) \<or>
    falsy_string (destination req)"
  then show "calculate_carbon env req db = ((400, Failure ''Missing required fields''), db)"
    by (rule calculate_carbon_missing)
next
  assume coords: "originCoords req = None \<or> destinationCoords req = None"
  show "calculate_carbon env req db =
        ((400, Failure
           (if falsy_number (quantity req) \<or> falsy_number (tonnesPerUnit req) \<or>
               falsy_string (transportMode req) \<or> falsy_string (origin req) \<or>
               falsy_string (destination req)
            then ''Missing required fields''
            else ''Origin and destination coordinates are required'')), db)"
  proof (cases "falsy_number (quantity req) \<or> falsy_number (tonnesPerUnit req) \<or>
      falsy_string (transportMode req) \<or> falsy_string (origin req) \<or>
      falsy_string (destination req)")
    case True
    then show ?thesis
      by (simp only: calculate_carbon_missing if_True)
  next
    case False
    then show ?thesis
      by (simp only: calculate_carbon_no_coords[OF coords False] if_False)
  qed
qed

theorem calculate_carbon_rejects_witness:
  "calculate_carbon \<lparr>now = ''2024-01-01T00:00:00.000Z'', add_outcome = Inr ''doc1''\<rparr>
     \<lparr>userId = Some ''u1'', quantity = Some (Fin 0), unit = Some ''pallet'', tonnesPerUnit = Some (Fin 1),
      cooledTransport = Some False, transportMode = Some ''train'', fuelTypes = None,
      origin = Some ''Oslo'', destination = Some ''Bergen'',
      originCoords = Some \<lparr>lat = Fin 59.91, lng = Fin 10.75\<rparr>,
      destinationCoords = Some \<lparr>lat = Fin 60.39, lng = Fin 5.32\<rparr>,
      originDetails = None, destinationDetails = None\<rparr> []
     = ((400, Failure ''Missing required fields''), []) \<and>
   calculate_carbon \<lparr>now = ''2024-01-01T00:00:00.000Z'', add_outcome = Inr ''doc1''\<rparr>
     \<lparr>userId = Some ''u1'', quantity = Some (Fin 10), unit = Some ''pallet'', tonnesPerUnit = Some (Fin 1),
      cooledTransport = Some False, transportMode = Some ''train'', fuelTypes = None,
      origin = Some ''Oslo'', destination = Some ''Bergen'',
      originCoords = Some \<lparr>lat = Fin 59.91, lng = Fin 10.75\<rparr>,
      destinationCoords = None,
      originDetails = None, destinationDetails = None\<rparr> []
     = ((400, Failure ''Origin and destination coordinates are required''), [])"
  using calculate_carbon_rejects[of
      "\<lparr>userId = Some ''u1'', quantity = Some (Fin 0), unit = Some ''pallet'', tonnesPerUnit = Some (Fin 1),
        cooledTransport = Some False, transportMode = Some ''train'', fuelTypes = None,
        origin = Some ''Oslo'', destination = Some ''Bergen'',
        originCoords = Some \<lparr>lat = Fin 59.91, lng = Fin 10.75\<rparr>,
        destinationCoords = Some \<lparr>lat = Fin 60.39, lng = Fin 5.32\<rparr>,
        originDetails = None, destinationDetails = None\<rparr>"
      "\<lparr>now = ''2024-01-01T00:00:00.000Z'', add_outcome = Inr ''doc1''\<rparr>" "[]"]
    calculate_carbon_rejects[of
      "\<lparr>userId = Some ''u1'', quantity = Some (Fin 10), unit = Some ''pallet'', tonnesPerUnit = Some (Fin 1),
        cooledTransport = Some False, transportMode = Some ''train'', fuelTypes = None,
        origin = Some ''Oslo'', destination = Some ''Bergen'',
        originCoords = Some \<lparr>lat = Fin 59.91, lng = Fin 10.75\<rparr>,
        destinationCoords = None,
        originDetails = None, destinationDetails = None\<rparr>"
      "\<lparr>now = ''2024-01-01T00:00:00.000Z'', add_outcome = Inr ''doc1''\<rparr>" "[]"]
  by (simp add: falsy_number_def falsy_string_def)

subsection \<open>The computed values\<close>

text \<open>A request that passes both checks is computed, stored and answered with status 200.\<close>

lemma calculate_carbon_completed:
  assumes "quantity req = Some q" "q \<noteq> Fin 0" "q \<noteq> NaN"
    and "tonnesPerUnit req = Some t" "t \<noteq> Fin 0" "t \<noteq> NaN"
    and "transportMode req = Some mode" "mode \<noteq> []"
    and "origin req = Some orig" "orig \<noteq> []" "destination req = Some dest" "dest \<noteq> []"
    and "originCoords req = Some oc" "destinationCoords req = Some dc"
    and "add_outcome env = Inr ident"
  shows "calculate_carbon env req db =
    ((200, Completed
       \<lparr> res_id = ident,
         res_carbonFootprint = toFixed (fp_carbonFootprint (compute_footprint req mode oc dc)) 2,
         res_totalWeight = fp_totalWeight (compute_footprint req mode oc dc),
         res_distance = toFixed (fp_distance (compute_footprint req mode oc dc)) 2,
         res_emissionFactor = toFixed (fp_emissionFactor (compute_footprint req mode oc dc)) 4,
         res_treesNeeded = fp_treesNeeded (compute_footprint req mode oc dc),
         res_transportMode = mode,
         res_cooledTransport = (cooledTransport req = Some True) \<rparr>),
     db @ [(ident, make_calculationData env req mode orig dest oc dc
                     (compute_footprint req mode oc dc))])"
  using assms by (simp add: calculate_carbon_def make_calculationData_def)

lemma compute_footprint_fields:
  assumes "quantity req = Some q" "tonnesPerUnit req = Some t"
  shows "fp_totalWeight (compute_footprint req mode oc dc) = jmul q t"
    and "fp_distance (compute_footprint req mode oc dc) =
           calculateDistance (lat oc) (lng oc) (lat dc) (lng dc)"
    and "fp_emissionFactor (compute_footprint req mode oc dc) =
           getEmissionFactor mode (case fuelTypes req of Some fs \<Rightarrow> fs | None \<Rightarrow> [])
             (cooledTransport req = Some True)"
    and "fp_carbonFootprint (compute_footprint req mode oc dc) =
           jmul (jmul (jmul q t) (calculateDistance (lat oc) (lng oc) (lat dc) (lng dc)))
             (getEmissionFactor mode (case fuelTypes req of Some fs \<Rightarrow> fs | None \<Rightarrow> [])
                (cooledTransport req = Some True))"
    and "fp_treesNeeded (compute_footprint req mode oc dc) =
           Math_ceil (jdiv (fp_carbonFootprint (compute_footprint req mode oc dc)) (Fin 21))"
  using assms by (simp_all add: compute_footprint_def Let_def)

text \<open>
  Rounding first would change the count: a footprint of \<open>21.004\<close> needs 2 trees,
  its two-decimal form \<open>21.00\<close> would need 1.
\<close>

lemma ceil_before_rounding:
  "Math_ceil (jdiv (Fin 21.004) (Fin 21)) = Fin 2"
  "Math_ceil (jdiv (toFixed (Fin 21.004) 2) (Fin 21)) = Fin 1"
proof -
  have "\<lceil>21.004 / 21 :: real\<rceil> = 2"
    by (intro ceiling_unique) simp_all
  then show "Math_ceil (jdiv (Fin 21.004) (Fin 21)) = Fin 2"
    by (simp add: fl_moderate)
  have "\<lfloor>21.004 * 10\<^sup>2 + 1 / 2 :: real\<rfloor> = 2100"
    by (intro floor_unique) simp_all
  then show "Math_ceil (jdiv (toFixed (Fin 21.004) 2) (Fin 21)) = Fin 1"
    by (simp add: fl_moderate)
qed

text \<open>
  C1. For a request that passes the checks (and whose document is stored), the response
  carries \<open>totalWeight = quantity \<times> tonnesPerUnit\<close>, the carbon footprint
  \<open>totalWeight \<times> distance \<times> emissionFactor\<close> printed with two decimals, where the
  distance is \<open>calculateDistance\<close> of the coordinates and the factor is
  \<open>getEmissionFactor\<close> of the mode, the fuels and the cooling flag, and
  \<open>treesNeeded\<close>, the ceiling of the footprint before it is rounded, divided by 21.
\<close>

theorem calculate_carbon_pipeline:
  assumes "quantity req = Some q" "q \<noteq> Fin 0" "q \<noteq> NaN"
    and "tonnesPerUnit req = Some t" "t \<noteq> Fin 0" "t \<noteq> NaN"
    and "transportMode req = Some mode" "mode \<noteq> []"
    and "origin req = Some orig" "orig \<noteq> []" "destination req = Some dest" "dest \<noteq> []"
    and "originCoords req = Some oc" "destinationCoords req = Some dc"
    and "add_outcome env = Inr ident"
  shows "\<exists>doc.
    (let totalWeight = jmul q t;
         distance = calculateDistance (lat oc) (lng oc) (lat dc) (lng dc);
         emissionFactor =
           getEmissionFactor mode (case fuelTypes req of Some fs \<Rightarrow> fs | None \<Rightarrow> [])
             (cooledTransport req = Some True);
         carbonFootprint = jmul (jmul totalWeight distance) emissionFactor
     in calculate_carbon env req db =
          ((200, Completed
              \<lparr> res_id = ident,
                res_carbonFootprint = toFixed carbonFootprint 2,
                res_totalWeight = totalWeight,
                res_distance = toFixed distance 2,
                res_emissionFactor = toFixed emissionFactor 4,
                res_treesNeeded = Math_ceil (jdiv carbonFootprint (Fin 21)),
                res_transportMode = mode,
                res_cooledTransport = (cooledTransport req = Some True) \<rparr>),
           db @ [(ident, doc)]) \<and>
        cd_totalWeight doc = totalWeight \<and>
        cd_carbonFootprint doc = toFixed carbonFootprint 2 \<and>
        cd_treesNeeded doc = Math_ceil (jdiv carbonFootprint (Fin 21)))"
proof -
  note fields = compute_footprint_fields[OF assms(1) assms(4), of mode oc dc]
  show ?thesis
    unfolding Let_def
    by (rule exI[of _ "make_calculationData env req mode orig dest oc dc
          (compute_footprint req mode oc dc)"])
      (simp add: calculate_carbon_completed[OF assms] fields make_calculationData_def)
qed

theorem calculate_carbon_pipeline_witness:
  "\<exists>doc. calculate_carbon \<lparr>now = ''2024-01-01T00:00:00.000Z'', add_outcome = Inr ''doc1''\<rparr>
      \<lparr>userId = Some ''u1'', quantity = Some (Fin 10), unit = Some ''pallet'',
       tonnesPerUnit = Some (Fin 1),
       cooledTransport = Some False, transportMode = Some ''train'', fuelTypes = None,
       origin = Some ''Libreville'', destination = Some ''Padang'',
       originCoords = Some \<lparr>lat = Fin 0, lng = Fin 0\<rparr>,
       destinationCoords = Some \<lparr>lat = Fin 0, lng = Fin 90\<rparr>,
       originDetails = None, destinationDetails = None\<rparr> []
    = ((200, Completed
          \<lparr> res_id = ''doc1'', res_carbonFootprint = Fin 3002.26, res_totalWeight = Fin 10,
            res_distance = Fin 10007.54, res_emissionFactor = Fin 0.03,
            res_treesNeeded = Fin 143, res_transportMode = ''train'',
            res_cooledTransport = False \<rparr>),
       [(''doc1'', doc)])"
proof -
  have big: "\<not> 2000000000000000000000 \<le> 6371 * pi" "\<not> 20000000000000000000000 \<le> 19113 * pi"
    using pi_six_decimals by simp_all
  have sgns: "sgn (6371 * pi / 2) = 1" "sgn (19113 * pi / 20) = 1"
    by simp_all
  have dist: "\<lfloor>318550 * pi + 1 / 2\<rfloor> = 1000754"
    using pi_six_decimals by (intro floor_unique) simp_all
  have foot: "\<lfloor>95565 * pi + 1 / 2\<rfloor> = 300226"
    using pi_six_decimals by (intro floor_unique) simp_all
  have trees: "\<lceil>6371 * pi / 140\<rceil> = 143"
    using pi_six_decimals by (intro ceiling_unique) simp_all
  have range: "fl (31855 * pi) = Fin (31855 * pi)" "fl (19113 * pi / 20) = Fin (19113 * pi / 20)"
    "fl (6371 * pi / 140) = Fin (6371 * pi / 140)"
    using fl_pi_multiple[of 31855] fl_pi_multiple[of "19113 / 20"] fl_pi_multiple[of "6371 / 140"]
    by simp_all
  show ?thesis
    using calculate_carbon_pipeline[of
      "\<lparr>userId = Some ''u1'', quantity = Some (Fin 10), unit = Some ''pallet'',
       tonnesPerUnit = Some (Fin 1),
       cooledTransport = Some False, transportMode = Some ''train'', fuelTypes = None,
       origin = Some ''Libreville'', destination = Some ''Padang'',
       originCoords = Some \<lparr>lat = Fin 0, lng = Fin 0\<rparr>,
       destinationCoords = Some \<lparr>lat = Fin 0, lng = Fin 90\<rparr>,
       originDetails = None, destinationDetails = None\<rparr>"
      "Fin 10" "Fin 1" "''train''" "''Libreville''" "''Padang''" "\<lparr>lat = Fin 0, lng = Fin 0\<rparr>"
      "\<lparr>lat = Fin 0, lng = Fin 90\<rparr>"
      "\<lparr>now = ''2024-01-01T00:00:00.000Z'', add_outcome = Inr ''doc1''\<rparr>" "''doc1''" "[]"]
    by (simp add: Let_def calculateDistance_quarter getEmissionFactor_other fl_moderate
        big sgns dist foot trees range)
      blast
qed

subsection \<open>Equal origin and destination\<close>

text \<open>The factor is a number unless an inherited name is selected for a truck.\<close>

lemma spec_truck_factor_range: "0 \<le> spec_truck_factor sel" "spec_truck_factor sel \<le> 1 / 2"
proof -
  have "0 \<le> sum_list (map spec_fuel_factor sel) / real (length sel)"
    using sum_list_factor_range(1)[of sel]
    by (intro divide_nonneg_nonneg) (simp_all add: order_trans[of 0 "real (length sel) / 25"])
  then show "0 \<le> spec_truck_factor sel"
    by (simp add: spec_truck_factor_def)
  have "sum_list (map spec_fuel_factor sel) / real (length sel) \<le> 1 / 2" if "sel \<noteq> []"
  proof -
    have n: "0 < real (length sel)"
      using that by simp
    have "sum_list (map spec_fuel_factor sel) \<le> real (length sel) / 2"
      using sum_list_factor_range(2)[of sel] n by linarith
    then show ?thesis
      using n by (simp add: field_simps)
  qed
  then show "spec_truck_factor sel \<le> 1 / 2"
    by (simp add: spec_truck_factor_def)
qed

lemma getEmissionFactor_finite:
  assumes "mode = ''truck'' \<longrightarrow>
    set (selectedFuels fuels) \<inter> set Object_prototype = {} \<and>
    length (selectedFuels fuels) \<le> 2 ^ 32"
  shows "\<exists>e. getEmissionFactor mode fuels cooled = Fin e"
proof -
  have "\<exists>e. getEmissionFactor mode fuels False = Fin e \<and> 0 \<le> e \<and> e \<le> 1 / 2"
  proof (cases "mode = ''truck''")
    case True
    with assms getEmissionFactor_truck_ordinary[of fuels] spec_truck_factor_range
    show ?thesis
      by simp
  next
    case False
    from getEmissionFactor_other[OF this, of fuels] show ?thesis
      by (intro exI[of _ "if mode = ''ship'' then 0.04 else if mode = ''plane'' then 0.5
          else if mode = ''train'' then 0.03 else if mode = ''intermodal'' then 0.08 else 0.1"])
        simp
  qed
  then obtain e where e: "getEmissionFactor mode fuels False = Fin e" "0 \<le> e" "e \<le> 1 / 2"
    by blast
  show ?thesis
  proof (cases cooled)
    case True
    have "\<bar>e * 1.3\<bar> \<le> 1"
      using e(2,3) by simp
    from fl_bounded[OF this] obtain y where "fl (e * 1.3) = Fin y"
      by auto
    then have "getEmissionFactor mode fuels True = Fin y"
      by (simp only: getEmissionFactor_cooled e(1) jmul.simps)
    with True show ?thesis
      by (intro exI[of _ y]) simp
  next
    case False
    with e(1) show ?thesis
      by simp
  qed
qed

lemma overflow_threshold_below: "overflow_threshold \<le> 10 ^ 309"
  by (simp add: overflow_threshold_def)

text \<open>
  C7, as stated, fails when the total weight overflows. For \<open>quantity = 1e308\<close> and
  \<open>tonnesPerUnit = 10\<close> the total weight is \<open>Infinity\<close>; the distance from the point
  to itself is \<open>0\<close>, and \<open>Infinity * 0\<close> is \<open>NaN\<close>, so the carbon footprint and
  \<open>treesNeeded\<close> are \<open>NaN\<close>, in the computation and in the response.
\<close>

theorem calculate_carbon_same_place_overflow:
  "fp_totalWeight (compute_footprint
      \<lparr>userId = None, quantity = Some (Fin (10 ^ 308)), unit = Some ''pallet'',
       tonnesPerUnit = Some (Fin 10),
       cooledTransport = Some False, transportMode = Some ''train'', fuelTypes = Some [],
       origin = Some ''Oslo'', destination = Some ''Oslo'',
       originCoords = Some \<lparr>lat = Fin 59.91, lng = Fin 10.75\<rparr>,
       destinationCoords = Some \<lparr>lat = Fin 59.91, lng = Fin 10.75\<rparr>,
       originDetails = None, destinationDetails = None\<rparr>
      ''train'' \<lparr>lat = Fin 59.91, lng = Fin 10.75\<rparr> \<lparr>lat = Fin 59.91, lng = Fin 10.75\<rparr>) = PosInf \<and>
   fst (calculate_carbon \<lparr>now = ''2024-01-01T00:00:00.000Z'', add_outcome = Inr ''doc7''\<rparr>
      \<lparr>userId = None, quantity = Some (Fin (10 ^ 308)), unit = Some ''pallet'',
       tonnesPerUnit = Some (Fin 10),
       cooledTransport = Some False, transportMode = Some ''train'', fuelTypes = Some [],
       origin = Some ''Oslo'', destination = Some ''Oslo'',
       originCoords = Some \<lparr>lat = Fin 59.91, lng = Fin 10.75\<rparr>,
       destinationCoords = Some \<lparr>lat = Fin 59.91, lng = Fin 10.75\<rparr>,
       originDetails = None, destinationDetails = None\<rparr> [])
    = (200, Completed
        \<lparr> res_id = ''doc7'', res_carbonFootprint = NaN, res_totalWeight = PosInf,
          res_distance = Fin 0, res_emissionFactor = Fin 0.03, res_treesNeeded = NaN,
          res_transportMode = ''train'', res_cooledTransport = False \<rparr>)"
proof -
  have w: "jmul (Fin (10 ^ 308)) (Fin 10) = PosInf"
    using fl_overflow[OF overflow_threshold_below] by simp
  have d: "calculateDistance (Fin 59.91) (Fin 10.75) (Fin 59.91) (Fin 10.75) = Fin 0"
    by (rule calculateDistance_same) simp
  from w d show ?thesis
    by (simp add: calculate_carbon_def make_calculationData_def compute_footprint_def Let_def
        getEmissionFactor_other del: jmul.simps(1))
qed

text \<open>
  C7, amended. When the origin and the destination have the same coordinates, with a
  latitude between \<open>-90\<close> and \<open>90\<close>, and the total weight \<open>quantity \<times> tonnesPerUnit\<close>
  is finite, the distance, the carbon footprint and \<open>treesNeeded\<close> are all \<open>0\<close>, as
  computed and as stored and returned. The emission factor is assumed to be a number,
  which it is for every mode other than truck and for every fuel selection that avoids
  the names inherited from \<open>Object.prototype\<close>.
\<close>

theorem calculate_carbon_same_place:
  assumes "quantity req = Some q" "q \<noteq> Fin 0" "q \<noteq> NaN"
    and "tonnesPerUnit req = Some t" "t \<noteq> Fin 0" "t \<noteq> NaN"
    and "transportMode req = Some mode" "mode \<noteq> []"
    and "origin req = Some orig" "orig \<noteq> []" "destination req = Some dest" "dest \<noteq> []"
    and "originCoords req = Some oc" "destinationCoords req = Some oc"
    and "add_outcome env = Inr ident"
    and "lat oc = Fin la" "\<bar>la\<bar> \<le> 90" "lng oc = Fin lo"
    and "jmul q t = Fin w"
    and "getEmissionFactor mode (case fuelTypes req of Some fs \<Rightarrow> fs | None \<Rightarrow> [])
           (cooledTransport req = Some True) = Fin e"
  shows "fp_distance (compute_footprint req mode oc oc) = Fin 0 \<and>
    fp_carbonFootprint (compute_footprint req mode oc oc) = Fin 0 \<and>
    fp_treesNeeded (compute_footprint req mode oc oc) = Fin 0 \<and>
    (\<exists>data doc.
       calculate_carbon env req db = ((200, Completed data), db @ [(ident, doc)]) \<and>
       res_distance data = Fin 0 \<and> res_carbonFootprint data = Fin 0 \<and>
       res_treesNeeded data = Fin 0 \<and>
       cd_distance doc = Fin 0 \<and> cd_carbonFootprint doc = Fin 0 \<and>
       cd_treesNeeded doc = Fin 0)"
proof -
  note fields = compute_footprint_fields[OF assms(1) assms(4), of mode oc oc]
  have d: "calculateDistance (lat oc) (lng oc) (lat oc) (lng oc) = Fin 0"
    unfolding assms(16) assms(18) by (rule calculateDistance_same[OF assms(17)])
  have zero: "jmul (jmul (Fin w) (Fin 0)) (Fin e) = Fin 0"
    by (simp add: fl_zero)
  have dist: "fp_distance (compute_footprint req mode oc oc) = Fin 0"
    by (simp only: fields(2) d)
  have foot: "fp_carbonFootprint (compute_footprint req mode oc oc) = Fin 0"
    by (simp only: fields(4) d assms(19) assms(20) zero)
  have trees: "fp_treesNeeded (compute_footprint req mode oc oc) = Fin 0"
    by (simp add: fields(5) foot fl_zero)
  have rounded: "toFixed (Fin 0) 2 = Fin 0"
    by simp
  have "calculate_carbon env req db =
    ((200, Completed
       \<lparr> res_id = ident,
         res_carbonFootprint = toFixed (fp_carbonFootprint (compute_footprint req mode oc oc)) 2,
         res_totalWeight = fp_totalWeight (compute_footprint req mode oc oc),
         res_distance = toFixed (fp_distance (compute_footprint req mode oc oc)) 2,
         res_emissionFactor = toFixed (fp_emissionFactor (compute_footprint req mode oc oc)) 4,
         res_treesNeeded = fp_treesNeeded (compute_footprint req mode oc oc),
         res_transportMode = mode,
         res_cooledTransport = (cooledTransport req = Some True) \<rparr>),
     db @ [(ident, make_calculationData env req mode orig dest oc oc
                     (compute_footprint req mode oc oc))])"
    by (rule calculate_carbon_completed[OF assms(1-15)])
  then have "\<exists>data doc.
       calculate_carbon env req db = ((200, Completed data), db @ [(ident, doc)]) \<and>
       res_distance data = Fin 0 \<and> res_carbonFootprint data = Fin 0 \<and>
       res_treesNeeded data = Fin 0 \<and>
       cd_distance doc = Fin 0 \<and> cd_carbonFootprint doc = Fin 0 \<and>
       cd_treesNeeded doc = Fin 0"
    by (simp add: dist foot trees make_calculationData_def)
  with dist foot trees show ?thesis
    by (simp only: simp_thms)
qed

theorem calculate_carbon_same_place_witness:
  "fp_distance (compute_footprint
      \<lparr>userId = None, quantity = Some (Fin 10), unit = Some ''pallet'',
       tonnesPerUnit = Some (Fin 1),
       cooledTransport = Some False, transportMode = Some ''train'', fuelTypes = Some [],
       origin = Some ''Oslo'', destination = Some ''Oslo'',
       originCoords = Some \<lparr>lat = Fin 59.91, lng = Fin 10.75\<rparr>,
       destinationCoords = Some \<lparr>lat = Fin 59.91, lng = Fin 10.75\<rparr>,
       originDetails = None, destinationDetails = None\<rparr>
      ''train'' \<lparr>lat = Fin 59.91, lng = Fin 10.75\<rparr> \<lparr>lat = Fin 59.91, lng = Fin 10.75\<rparr>) = Fin 0 \<and>
   (\<exists>data doc.
      calculate_carbon \<lparr>now = ''2024-01-01T00:00:00.000Z'', add_outcome = Inr ''doc7''\<rparr>
        \<lparr>userId = None, quantity = Some (Fin 10), unit = Some ''pallet'',
         tonnesPerUnit = Some (Fin 1),
         cooledTransport = Some False, transportMode = Some ''train'', fuelTypes = Some [],
         origin = Some ''Oslo'', destination = Some ''Oslo'',
         originCoords = Some \<lparr>lat = Fin 59.91, lng = Fin 10.75\<rparr>,
         destinationCoords = Some \<lparr>lat = Fin 59.91, lng = Fin 10.75\<rparr>,
         originDetails = None, destinationDetails = None\<rparr> []
        = ((200, Completed data), [(''doc7'', doc)]) \<and>
      res_distance data = Fin 0 \<and> res_carbonFootprint data = Fin 0 \<and>
      res_treesNeeded data = Fin 0)"
  using calculate_carbon_same_place[of
      "\<lparr>userId = None, quantity = Some (Fin 10), unit = Some ''pallet'',
        tonnesPerUnit = Some (Fin 1),
        cooledTransport = Some False, transportMode = Some ''train'', fuelTypes = Some [],
        origin = Some ''Oslo'', destination = Some ''Oslo'',
        originCoords = Some \<lparr>lat = Fin 59.91, lng = Fin 10.75\<rparr>,
        destinationCoords = Some \<lparr>lat = Fin 59.91, lng = Fin 10.75\<rparr>,
        originDetails = None, destinationDetails = None\<rparr>"
      "Fin 10" "Fin 1" "''train''" "''Oslo''" "''Oslo''" "\<lparr>lat = Fin 59.91, lng = Fin 10.75\<rparr>"
      "\<lparr>now = ''2024-01-01T00:00:00.000Z'', add_outcome = Inr ''doc7''\<rparr>" "''doc7''"
      "59.91" "10.75" 10 "0.03" "[]"]
  by (simp add: getEmissionFactor_other fl_moderate) blast

end
